theory Spec2Isabelle
  imports Main "HOL-Library.Sublist"
begin

section \<open>Python values used by the retrieval scripts\<close>

text \<open>
  A Python \<^verbatim>\<open>str\<close> is a sequence of Unicode code points: \<^verbatim>\<open>len\<close>, slicing and
  \<^verbatim>\<open>strip\<close> all count code points, so a string is a list of code-point numbers.
  Dictionary keys, CSS selectors and attribute names of the scripts are ASCII literals
  and stay HOL strings; \<open>ascii\<close> turns an ASCII literal into a Python string.
\<close>

type_synonym pystr = "nat list"

definition ascii :: "string \<Rightarrow> pystr" where
  "ascii s = map of_char s"

text \<open>
  The characters \<^verbatim>\<open>str.strip()\<close> removes (CPython's \<^verbatim>\<open>Py_UNICODE_ISSPACE\<close>):
  U+0009..U+000D, U+001C..U+0020, U+0085, U+00A0, U+1680, U+2000..U+200A, U+2028,
  U+2029, U+202F, U+205F, U+3000.
\<close>

definition isspace :: "nat \<Rightarrow> bool" where
  "isspace c = ((9 \<le> c \<and> c \<le> 13) \<or> (28 \<le> c \<and> c \<le> 32) \<or> c = 133 \<or> c = 160
     \<or> c = 5760 \<or> (8192 \<le> c \<and> c \<le> 8202) \<or> c = 8232 \<or> c = 8233 \<or> c = 8239
     \<or> c = 8287 \<or> c = 12288)"

definition strip :: "pystr \<Rightarrow> pystr" where
  "strip s = rev (dropWhile isspace (rev (dropWhile isspace s)))"

text \<open>\<^verbatim>\<open>sep.join(xs)\<close>.\<close>

fun join :: "pystr \<Rightarrow> pystr list \<Rightarrow> pystr" where
  "join sep [] = []"
| "join sep [x] = x"
| "join sep (x # y # ys) = x @ sep @ join sep (y # ys)"

text \<open>\<^verbatim>\<open>xs[:n]\<close> for an integer \<open>n\<close>: a negative bound counts from the end.\<close>

definition slice_to :: "int \<Rightarrow> 'a list \<Rightarrow> 'a list" where
  "slice_to n xs = (if 0 \<le> n then take (nat n) xs else take (length xs - nat (- n)) xs)"

text \<open>\<^verbatim>\<open>str(n)\<close> for an integer, as an f-string renders it.\<close>

fun str_nat :: "nat \<Rightarrow> pystr" where
  "str_nat n = (if n < 10 then [48 + n] else str_nat (n div 10) @ [48 + n mod 10])"

declare str_nat.simps [simp del]

definition str_int :: "int \<Rightarrow> pystr" where
  "str_int i = (if i < 0 then 45 # str_nat (nat (- i)) else str_nat (nat i))"

section \<open>The parsed document and the network\<close>

text \<open>
  A BeautifulSoup tag, as far as the scripts look at it: the text nodes below it in
  document order (what \<^verbatim>\<open>get_text\<close> walks), its attributes, and for each CSS selector
  the matching descendants in document order (what \<^verbatim>\<open>select\<close> returns). A selector
  that is not listed matches nothing.
\<close>

datatype element =
  Element (strings: "pystr list") (attrs: "(string \<times> pystr) list")
    (matches: "(string \<times> element list) list")

definition select :: "element \<Rightarrow> string \<Rightarrow> element list" where
  "select e sel = (case map_of (matches e) sel of None \<Rightarrow> [] | Some es \<Rightarrow> es)"

definition select_one :: "element \<Rightarrow> string \<Rightarrow> element option" where
  "select_one e sel = (case select e sel of [] \<Rightarrow> None | x # _ \<Rightarrow> Some x)"

text \<open>\<^verbatim>\<open>a or b\<close> on two \<^verbatim>\<open>select_one\<close> results: a tag is always truthy.\<close>

definition or_else :: "element option \<Rightarrow> element option \<Rightarrow> element option" where
  "or_else a b = (case a of None \<Rightarrow> b | Some x \<Rightarrow> Some x)"

text \<open>\<^verbatim>\<open>tag.get_text(strip=True)\<close>: every text node stripped, the empty ones skipped,
  the rest concatenated.\<close>

definition get_text :: "element \<Rightarrow> pystr" where
  "get_text e = concat (filter (\<lambda>s. s \<noteq> []) (map strip (strings e)))"

text \<open>\<^verbatim>\<open>tag.get(k)\<close> gives \<^verbatim>\<open>None\<close> for a missing attribute, \<^verbatim>\<open>tag[k]\<close> raises
  \<^verbatim>\<open>KeyError\<close>; both are the option below, the caller deciding what \<open>None\<close> means.\<close>

definition attr :: "element \<Rightarrow> string \<Rightarrow> pystr option" where
  "attr e k = map_of (attrs e) k"

text \<open>
  \<^verbatim>\<open>requests.get\<close> either raises (no connection, timeout) or returns a response with a
  status code and a body, which the scripts parse at once. The world maps each URL to
  what a request for it gives and records the requests issued, oldest first.
\<close>

datatype response = ConnectionError | Response nat element

record world =
  pages :: "pystr \<Rightarrow> response"
  requested :: "pystr list"

definition requests_get :: "pystr \<Rightarrow> world \<Rightarrow> response \<times> world" where
  "requests_get u w = (pages w u, w\<lparr>requested := requested w @ [u]\<rparr>)"

text \<open>\<^verbatim>\<open>response.raise_for_status()\<close> raises for the status codes 400 to 599.\<close>

definition is_error_status :: "nat \<Rightarrow> bool" where
  "is_error_status st = (400 \<le> st \<and> st < 600)"

datatype error = ValueError pystr | RequestException | HTTPError nat | AttributeError

section \<open>Paper records\<close>

text \<open>
  Every dictionary the scripts build has the keys below (here with the prefix \<open>p_\<close>),
  each either missing from the dictionary, bound to \<^verbatim>\<open>None\<close>, or bound to a value: a
  string, and for \<^verbatim>\<open>authors\<close> a list of strings.
\<close>

datatype 'a entry = Omitted | PNone | Val 'a

record paper =
  p_url :: "pystr entry"
  p_platform :: "pystr entry"
  p_title :: "pystr entry"
  p_authors :: "pystr list entry"
  p_journal :: "pystr entry"
  p_year :: "pystr entry"
  p_doi :: "pystr entry"
  p_abstract :: "pystr entry"

definition new_paper :: "pystr \<Rightarrow> pystr \<Rightarrow> paper" where
  "new_paper u p = \<lparr>p_url = Val u, p_platform = Val p, p_title = Omitted, p_authors = Omitted,
     p_journal = Omitted, p_year = Omitted, p_doi = Omitted, p_abstract = Omitted\<rparr>"

text \<open>Truthiness of \<^verbatim>\<open>paper.get(k)\<close>: a missing key and \<^verbatim>\<open>None\<close> are falsy, and so is
  an empty string or list.\<close>

fun truthy :: "'a list entry \<Rightarrow> bool" where
  "truthy (Val v) = (v \<noteq> [])"
| "truthy _ = False"

text \<open>How an f-string renders \<^verbatim>\<open>paper.get(k, default)\<close>: the default only for a missing
  key; \<^verbatim>\<open>None\<close> is a value like any other and prints as \<^verbatim>\<open>None\<close>.\<close>

fun render :: "pystr entry \<Rightarrow> pystr \<Rightarrow> pystr" where
  "render Omitted d = d"
| "render PNone d = ascii ''None''"
| "render (Val s) d = s"

section \<open>paper\_searcher.py\<close>

subsection \<open>search\_papers\<close>

text \<open>The \<^verbatim>\<open>search_urls\<close> dictionary: every f-string is built before the platform is
  looked up, with the keyword embedded as it is.\<close>

definition search_urls :: "pystr \<Rightarrow> int \<Rightarrow> (pystr \<times> pystr) list" where
  "search_urls keyword max_results =
    [(ascii ''cnki'', ascii ''https://search.cnki.com.cn/Search/Result?content='' @ keyword),
     (ascii ''wanfang'',
        ascii ''https://www.wanfangdata.com.cn/search/searchAll.jsp?searchType=all&content=''
          @ keyword),
     (ascii ''cqvip'', ascii ''https://search.qikan.cqvip.com/search/Result?content='' @ keyword),
     (ascii ''arxiv'', ascii ''https://arxiv.org/search/?query='' @ keyword
          @ ascii ''&search_type=all&max_results='' @ str_int max_results),
     (ascii ''openalex'', ascii ''https://openalex.org/works?search='' @ keyword
          @ ascii ''&per-page='' @ str_int max_results)]"

text \<open>The test \<^verbatim>\<open>link and link.get('href')\<close> of every result loop: the first match of
  the link selector inside the item, when it has a non-empty \<^verbatim>\<open>href\<close>.\<close>

definition usable_href :: "string \<Rightarrow> element \<Rightarrow> pystr option" where
  "usable_href link_sel item =
     (case select_one item link_sel of
        None \<Rightarrow> None
      | Some link \<Rightarrow> (case attr link ''href'' of
            None \<Rightarrow> None
          | Some h \<Rightarrow> if h \<noteq> [] then Some h else None))"

text \<open>The loop \<^verbatim>\<open>for item in items: ... urls.append(base + link['href'])\<close>.\<close>

fun collect_links :: "string \<Rightarrow> pystr \<Rightarrow> element list \<Rightarrow> pystr list \<Rightarrow> pystr list" where
  "collect_links link_sel base [] urls = urls"
| "collect_links link_sel base (item # items) urls =
     (case usable_href link_sel item of
        Some h \<Rightarrow> collect_links link_sel base items (urls @ [base @ h])
      | None \<Rightarrow> collect_links link_sel base items urls)"

definition platform_links :: "pystr \<Rightarrow> element \<Rightarrow> int \<Rightarrow> pystr list" where
  "platform_links platform soup max_results =
     (if platform = ascii ''cnki'' then
        collect_links ''a'' [] (slice_to max_results (select soup ''.result-list li'')) []
      else if platform = ascii ''wanfang'' then
        collect_links ''a'' [] (slice_to max_results (select soup ''.search-list li'')) []
      else if platform = ascii ''cqvip'' then
        collect_links ''a'' [] (slice_to max_results (select soup ''.result-list li'')) []
      else if platform = ascii ''arxiv'' then
        collect_links ''.title a'' (ascii ''https://arxiv.org'')
          (slice_to max_results (select soup ''.list-lst'')) []
      else if platform = ascii ''openalex'' then
        collect_links ''a'' (ascii ''https://openalex.org'')
          (slice_to max_results (select soup ''.work'')) []
      else [])"

definition search_papers :: "pystr \<Rightarrow> pystr \<Rightarrow> int \<Rightarrow> world \<Rightarrow> (error + pystr list) \<times> world" where
  "search_papers keyword platform max_results w =
     (case map_of (search_urls keyword max_results) platform of
        None \<Rightarrow> (Inl (ValueError (ascii ''Unsupported platform: '' @ platform)), w)
      | Some u \<Rightarrow>
         (case requests_get u w of
            (ConnectionError, w') \<Rightarrow> (Inl RequestException, w')
          | (Response st soup, w') \<Rightarrow>
              if is_error_status st then (Inl (HTTPError st), w')
              else (Inr (platform_links platform soup max_results), w')))"

subsection \<open>get\_paper\_details\<close>

definition sel_citation_doi :: string where
  \<open>sel_citation_doi = ''meta[name="citation_doi"]''\<close>

definition sel_citation_title :: string where
  \<open>sel_citation_title = ''meta[name="citation_title"]''\<close>

definition sel_citation_journal_title :: string where
  \<open>sel_citation_journal_title = ''meta[name="citation_journal_title"]''\<close>

definition sel_citation_date :: string where
  \<open>sel_citation_date = ''meta[name="citation_date"]''\<close>

text \<open>\<^verbatim>\<open>elem.get_text(strip=True) if elem else None\<close>.\<close>

definition text_or_none :: "element option \<Rightarrow> pystr entry" where
  "text_or_none e = (case e of None \<Rightarrow> PNone | Some x \<Rightarrow> Val (get_text x))"

text \<open>\<^verbatim>\<open>elem['content'] if elem else d\<close>; the result \<open>None\<close> is the \<^verbatim>\<open>KeyError\<close> of a
  tag without that attribute.\<close>

definition content_or :: "element option \<Rightarrow> pystr entry \<Rightarrow> pystr entry option" where
  "content_or e d =
     (case e of
        None \<Rightarrow> Some d
      | Some x \<Rightarrow> (case attr x ''content'' of None \<Rightarrow> None | Some c \<Rightarrow> Some (Val c)))"

text \<open>\<^verbatim>\<open>text[:4] if len(text) >= 4 else text\<close>.\<close>

definition first_four :: "pystr \<Rightarrow> pystr" where
  "first_four text = (if length text \<ge> 4 then take 4 text else text)"

definition details_cnki :: "element \<Rightarrow> paper \<Rightarrow> paper option" where
  "details_cnki soup paper_info =
     (let paper_info = paper_info\<lparr>p_title :=
            text_or_none (or_else (select_one soup ''#mainTitle'') (select_one soup ''h1.title''))\<rparr>;
          paper_info = paper_info\<lparr>p_authors :=
            Val (map get_text (take 5 (select soup ''.author a'')))\<rparr>;
          paper_info = paper_info\<lparr>p_journal :=
            text_or_none (or_else (select_one soup ''.journal-name'') (select_one soup ''.journal''))\<rparr>;
          paper_info =
            (case or_else (select_one soup ''.publish-date'') (select_one soup ''.year'') of
               None \<Rightarrow> paper_info
             | Some year_elem \<Rightarrow> paper_info\<lparr>p_year := Val (first_four (get_text year_elem))\<rparr>)
      in case content_or (select_one soup sel_citation_doi) PNone of
           None \<Rightarrow> None
         | Some d \<Rightarrow> Some (paper_info\<lparr>p_doi := d\<rparr>))"

definition details_arxiv :: "element \<Rightarrow> paper \<Rightarrow> paper option" where
  "details_arxiv soup paper_info =
     (case content_or (select_one soup sel_citation_title) PNone of
        None \<Rightarrow> None
      | Some t \<Rightarrow>
         (let paper_info = paper_info\<lparr>p_title := t\<rparr>;
              paper_info = paper_info\<lparr>p_authors := Val (map get_text (select soup ''.authors a''))\<rparr>
          in case content_or (select_one soup sel_citation_journal_title) (Val (ascii ''arXiv'')) of
               None \<Rightarrow> None
             | Some j \<Rightarrow>
                (let paper_info = paper_info\<lparr>p_journal := j\<rparr>
                 in case (case select_one soup sel_citation_date of
                            None \<Rightarrow> Some paper_info
                          | Some year_elem \<Rightarrow>
                             (case attr year_elem ''content'' of
                                None \<Rightarrow> None
                              | Some c \<Rightarrow> Some (paper_info\<lparr>p_year := Val (take 4 c)\<rparr>))) of
                      None \<Rightarrow> None
                    | Some paper_info \<Rightarrow>
                       (case content_or (select_one soup sel_citation_doi) PNone of
                          None \<Rightarrow> None
                        | Some d \<Rightarrow> Some (paper_info\<lparr>p_doi := d\<rparr>)))))"

definition details_openalex :: "element \<Rightarrow> paper \<Rightarrow> paper option" where
  "details_openalex soup paper_info =
     (let paper_info = paper_info\<lparr>p_title :=
            text_or_none (or_else (select_one soup ''h1'') (select_one soup ''.title''))\<rparr>;
          paper_info = paper_info\<lparr>p_authors :=
            Val (map get_text (take 5 (select soup ''.authors span'')))\<rparr>;
          paper_info = paper_info\<lparr>p_journal :=
            text_or_none (or_else (select_one soup ''.journal'') (select_one soup ''.venue''))\<rparr>;
          paper_info =
            (case or_else (select_one soup ''.year'') (select_one soup ''.publication_date'') of
               None \<Rightarrow> paper_info
             | Some year_elem \<Rightarrow> paper_info\<lparr>p_year := Val (first_four (get_text year_elem))\<rparr>)
      in Some (paper_info\<lparr>p_doi := PNone\<rparr>))"

text \<open>The whole body sits in \<^verbatim>\<open>try ... except Exception\<close>: a failed request, an error
  status and a missing attribute all end in \<^verbatim>\<open>return None\<close>.\<close>

definition get_paper_details :: "pystr \<Rightarrow> pystr \<Rightarrow> world \<Rightarrow> paper option \<times> world" where
  "get_paper_details url platform w =
     (case requests_get url w of
        (ConnectionError, w') \<Rightarrow> (None, w')
      | (Response st soup, w') \<Rightarrow>
          if is_error_status st then (None, w')
          else (let paper_info = new_paper url platform
                in if platform = ascii ''cnki'' then (details_cnki soup paper_info, w')
                   else if platform = ascii ''arxiv'' then (details_arxiv soup paper_info, w')
                   else if platform = ascii ''openalex'' then (details_openalex soup paper_info, w')
                   else (Some paper_info, w')))"

subsection \<open>search\_and\_extract\<close>

text \<open>The loop over the result URLs; \<^verbatim>\<open>time.sleep\<close> changes nothing that is modelled.\<close>

fun extract_all :: "pystr \<Rightarrow> pystr list \<Rightarrow> paper list \<Rightarrow> world \<Rightarrow> paper list \<times> world" where
  "extract_all platform [] papers w = (papers, w)"
| "extract_all platform (url # urls) papers w =
     (case get_paper_details url platform w of
        (Some paper, w') \<Rightarrow>
          if truthy (p_title paper) then extract_all platform urls (papers @ [paper]) w'
          else extract_all platform urls papers w'
      | (None, w') \<Rightarrow> extract_all platform urls papers w')"

definition search_and_extract ::
  "pystr \<Rightarrow> pystr \<Rightarrow> int \<Rightarrow> world \<Rightarrow> (error + paper list) \<times> world" where
  "search_and_extract keyword platform max_results w =
     (case search_papers keyword platform max_results w of
        (Inl e, w') \<Rightarrow> (Inl e, w')
      | (Inr urls, w') \<Rightarrow>
          (case extract_all platform urls [] w' of (papers, w'') \<Rightarrow> (Inr papers, w'')))"

subsection \<open>generate\_reference\<close>

definition unknown_author :: pystr where
  "unknown_author = [26410, 30693, 20316, 32773]"

definition unknown_title :: pystr where
  "unknown_title = [26410, 30693, 26631, 39064]"

definition unknown_journal :: pystr where
  "unknown_journal = [26410, 30693, 26399, 21002]"

text \<open>The fixed head of every reference, a bracketed two-character label and a space.\<close>

definition ref_label :: pystr where
  "ref_label = [91, 24207, 21495, 93, 32]"

definition get_list :: "pystr list entry \<Rightarrow> pystr list" where
  "get_list e = (case e of Val xs \<Rightarrow> xs | _ \<Rightarrow> [])"

text \<open>The first line of the body: the authors joined by a comma and a space, or the
  placeholder when the key is missing, \<^verbatim>\<open>None\<close> or an empty list.\<close>

definition authors_text :: "paper \<Rightarrow> pystr" where
  "authors_text paper =
     (if truthy (p_authors paper) then join (ascii '', '') (get_list (p_authors paper))
      else unknown_author)"

definition generate_reference :: "paper \<Rightarrow> pystr" where
  "generate_reference paper =
     (let authors = authors_text paper;
          title = render (p_title paper) unknown_title;
          journal = render (p_journal paper) unknown_journal;
          year = render (p_year paper) (ascii ''0000'');
          doi = render (p_doi paper) [];
          url = render (p_url paper) [];
          ref = (if truthy (p_doi paper)
                 then ref_label @ authors @ ascii ''. '' @ title @ ascii ''[J]. '' @ journal
                        @ ascii '', '' @ year @ ascii ''. DOI: '' @ doi
                 else ref_label @ authors @ ascii ''. '' @ title @ ascii ''[J]. '' @ journal
                        @ ascii '', '' @ year)
      in if truthy (p_url paper) then ref @ [10] @ ascii ''SourceURL: '' @ url else ref)"

section \<open>thesis\_paper\_searcher.py\<close>

text \<open>\<^verbatim>\<open>search_cnki\<close> does not call \<^verbatim>\<open>raise_for_status\<close>: any page that arrives is
  parsed, and an exception gives the empty list.\<close>

definition search_cnki :: "pystr \<Rightarrow> int \<Rightarrow> world \<Rightarrow> pystr list \<times> world" where
  "search_cnki keyword max_results w =
     (case requests_get (ascii ''https://search.cnki.com.cn/Search/Result?content='' @ keyword) w of
        (ConnectionError, w') \<Rightarrow> ([], w')
      | (Response st soup, w') \<Rightarrow>
          (collect_links ''a'' [] (slice_to max_results (select soup ''.result-list li'')) [], w'))"


text \<open>
  \<^verbatim>\<open>re.search(r'(\d{4})', text)\<close>: the leftmost four consecutive characters of the class
  \<^verbatim>\<open>\d\<close>. On a \<^verbatim>\<open>str\<close> pattern that class is Unicode's decimal digits, a table of the
  interpreter's Unicode version, which is why it is a parameter here.
\<close>

fun search_d4 :: "(nat \<Rightarrow> bool) \<Rightarrow> pystr \<Rightarrow> pystr option" where
  "search_d4 isdigit [] = None"
| "search_d4 isdigit (c # cs) =
     (if length (c # cs) \<ge> 4 \<and> list_all isdigit (take 4 (c # cs)) then Some (take 4 (c # cs))
      else search_d4 isdigit cs)"

definition get_cnki_paper_details ::
  "(nat \<Rightarrow> bool) \<Rightarrow> pystr \<Rightarrow> world \<Rightarrow> paper option \<times> world" where
  "get_cnki_paper_details isdigit url w =
     (case requests_get url w of
        (ConnectionError, w') \<Rightarrow> (None, w')
      | (Response st soup, w') \<Rightarrow>
         (let paper_info = new_paper url (ascii ''cnki'');
              paper_info = paper_info\<lparr>p_title :=
                text_or_none (or_else (select_one soup ''#mainTitle'') (select_one soup ''h1''))\<rparr>;
              paper_info = paper_info\<lparr>p_authors :=
                Val (map get_text (take 5 (select soup ''.author a'')))\<rparr>;
              paper_info = paper_info\<lparr>p_journal := text_or_none (select_one soup ''.journal-name'')\<rparr>;
              paper_info =
                (case select_one soup ''.publish-date'' of
                   None \<Rightarrow> paper_info
                 | Some year_elem \<Rightarrow>
                    (let text = get_text year_elem
                     in paper_info\<lparr>p_year :=
                          Val (case search_d4 isdigit text of Some m \<Rightarrow> m | None \<Rightarrow> take 4 text)\<rparr>))
          in case content_or (select_one soup sel_citation_doi) PNone of
               None \<Rightarrow> (None, w')
             | Some d \<Rightarrow>
                (let paper_info = paper_info\<lparr>p_doi := d\<rparr>
                 in (if truthy (p_title paper_info) then Some paper_info else None, w'))))"

definition get_arxiv_paper_details :: "pystr \<Rightarrow> world \<Rightarrow> paper option \<times> world" where
  "get_arxiv_paper_details url w =
     (case requests_get url w of
        (ConnectionError, w') \<Rightarrow> (None, w')
      | (Response st soup, w') \<Rightarrow>
         (let paper_info = new_paper url (ascii ''arxiv'')
          in case content_or (select_one soup sel_citation_title) PNone of
               None \<Rightarrow> (None, w')
             | Some t \<Rightarrow>
                (case content_or (select_one soup sel_citation_journal_title)
                        (Val (ascii ''arXiv preprint'')) of
                   None \<Rightarrow> (None, w')
                 | Some j \<Rightarrow>
                    (case (case select_one soup sel_citation_date of
                             None \<Rightarrow> Some PNone
                           | Some date_elem \<Rightarrow>
                              (case attr date_elem ''content'' of
                                 None \<Rightarrow> None
                               | Some c \<Rightarrow> Some (Val (take 4 c)))) of
                       None \<Rightarrow> (None, w')
                     | Some y \<Rightarrow>
                        (case content_or (select_one soup sel_citation_doi) PNone of
                           None \<Rightarrow> (None, w')
                         | Some d \<Rightarrow>
                            (let paper_info = paper_info\<lparr>p_title := t,
                                   p_authors := Val (map get_text (select soup ''.authors a'')),
                                   p_journal := j, p_year := y, p_doi := d\<rparr>
                             in (if truthy (p_title paper_info) then Some paper_info else None,
                                 w')))))))"

subsection \<open>The deduplication loop of main\<close>

text \<open>
  \<^verbatim>\<open>title = paper.get('title', '').strip()\<close>: the empty string for a record without the
  key, \<^verbatim>\<open>AttributeError\<close> for a title that is \<^verbatim>\<open>None\<close>.
\<close>

definition stripped_title :: "paper \<Rightarrow> error + pystr" where
  "stripped_title paper =
     (case p_title paper of
        Omitted \<Rightarrow> Inr (strip [])
      | PNone \<Rightarrow> Inl AttributeError
      | Val t \<Rightarrow> Inr (strip t))"

text \<open>The loop, with its two variables \<^verbatim>\<open>seen_titles\<close> and \<^verbatim>\<open>unique_papers\<close>.\<close>

fun dedupe_loop :: "paper list \<Rightarrow> pystr set \<Rightarrow> paper list \<Rightarrow> error + paper list" where
  "dedupe_loop [] seen_titles unique_papers = Inr unique_papers"
| "dedupe_loop (paper # all_papers) seen_titles unique_papers =
     (case stripped_title paper of
        Inl e \<Rightarrow> Inl e
      | Inr title \<Rightarrow>
          if title \<noteq> [] \<and> title \<notin> seen_titles
          then dedupe_loop all_papers (insert title seen_titles) (unique_papers @ [paper])
          else dedupe_loop all_papers seen_titles unique_papers)"

definition dedupe :: "paper list \<Rightarrow> error + paper list" where
  "dedupe all_papers = dedupe_loop all_papers {} []"

subsection \<open>main: collecting, deduplicating and writing the records\<close>









section \<open>paper\_search.py\<close>








text \<open>\<^verbatim>\<open>verify_reference\<close>: both required keys present and truthy.\<close>

definition verify_reference :: "paper \<Rightarrow> bool" where
  "verify_reference paper_info = (truthy (p_title paper_info) \<and> truthy (p_url paper_info))"

section \<open>Notions used in the statements\<close>

text \<open>The keys of \<^verbatim>\<open>search_urls\<close>.\<close>

definition supported_platforms :: "pystr list" where
  "supported_platforms = map ascii [''cnki'', ''wanfang'', ''cqvip'', ''arxiv'', ''openalex'']"

text \<open>The result containers \<^verbatim>\<open>search_papers\<close> selects on a platform's search page, and the
  URL its loop body appends for one container, if any.\<close>

definition result_items :: "pystr \<Rightarrow> element \<Rightarrow> element list" where
  "result_items platform soup =
     (if platform = ascii ''cnki'' \<or> platform = ascii ''cqvip'' then select soup ''.result-list li''
      else if platform = ascii ''wanfang'' then select soup ''.search-list li''
      else if platform = ascii ''arxiv'' then select soup ''.list-lst''
      else if platform = ascii ''openalex'' then select soup ''.work''
      else [])"

definition result_url :: "pystr \<Rightarrow> element \<Rightarrow> pystr option" where
  "result_url platform item =
     (if platform = ascii ''arxiv''
      then map_option (\<lambda>h. ascii ''https://arxiv.org'' @ h) (usable_href ''.title a'' item)
      else if platform = ascii ''openalex''
      then map_option (\<lambda>h. ascii ''https://openalex.org'' @ h) (usable_href ''a'' item)
      else usable_href ''a'' item)"

text \<open>The key the deduplication loop compares: the title with the whitespace at both
  ends removed, empty for a record without a title.\<close>

definition title_key :: "paper \<Rightarrow> pystr" where
  "title_key paper = (case p_title paper of Val t \<Rightarrow> strip t | _ \<Rightarrow> [])"

text \<open>
  Deduplication as a specification: go through the records in order, skip a record with
  an empty key, keep any other record and drop every later record with the same key.
\<close>

function keep_first_seen :: "paper list \<Rightarrow> paper list" where
  "keep_first_seen [] = []"
| "keep_first_seen (r # rs) =
     (if title_key r = [] then keep_first_seen rs
      else r # keep_first_seen (filter (\<lambda>x. title_key x \<noteq> title_key r) rs))"
  by pat_completeness auto
termination
  by (relation "measure length") (auto simp: less_Suc_eq_le)

text \<open>The four characters whose presence the citation claim is about.\<close>

definition doi_mark :: pystr where
  "doi_mark = ascii ''DOI:''"

text \<open>The digits 0 to 9, one admissible reading of the class \<^verbatim>\<open>\d\<close>.\<close>

definition ascii_digit :: "nat \<Rightarrow> bool" where
  "ascii_digit c = (48 \<le> c \<and> c \<le> 57)"

text \<open>The first element that a list of selectors finds, tried in order: the chain
  \<^verbatim>\<open>soup.select_one(a) or soup.select_one(b)\<close> of the extractors.\<close>

fun first_found :: "element \<Rightarrow> string list \<Rightarrow> element option" where
  "first_found soup [] = None"
| "first_found soup (sel # sels) =
     (case select_one soup sel of Some e \<Rightarrow> Some e | None \<Rightarrow> first_found soup sels)"


section \<open>Concrete pages, worlds and records\<close>

text \<open>A network on which every request is answered with status 200 and the same page.\<close>

definition web_of :: "element \<Rightarrow> world" where
  "web_of page = \<lparr>pages = (\<lambda>u. Response 200 page), requested = []\<rparr>"

definition text_node :: "string \<Rightarrow> element" where
  "text_node s = Element [ascii s] [] []"

definition blank_page :: element where
  "blank_page = Element [] [] []"

definition title_page :: element where
  "title_page = Element [] [] [(''#mainTitle'', [text_node ''Graph Theory''])]"

definition dated_page :: element where
  "dated_page = Element [] []
     [(''#mainTitle'', [text_node ''Graph Theory'']),
      (''.publish-date'', [text_node ''Published: 2021-05-01''])]"

definition arxiv_page :: element where
  "arxiv_page = Element [] []
     [(sel_citation_title, [Element [] [(''content'', ascii ''Graph Theory'')] []])]"

definition item_with_link :: "pystr \<Rightarrow> element" where
  "item_with_link h = Element [] [] [(''a'', [Element [] [(''href'', h)] []])]"

definition item_without_link :: element where
  "item_without_link = Element [] [] []"

definition listing :: "element list \<Rightarrow> element" where
  "listing items = Element [] [] [(''.result-list li'', items)]"

definition twenty_items :: "element list" where
  "twenty_items = map (\<lambda>n. item_with_link (ascii ''/kcms/detail/'' @ str_nat n))
     [1, 2, 3, 4, 5, 6, 7, 8, 9, 10, 11, 12, 13, 14, 15, 16, 17, 18, 19, 20]"

definition full_listing :: element where
  "full_listing = listing twenty_items"

definition padded_listing :: element where
  "padded_listing = listing (item_without_link # twenty_items)"

definition sparse_listing :: element where
  "sparse_listing =
     listing [item_without_link, item_with_link (ascii ''/kcms/detail/1''),
              item_with_link (ascii ''/kcms/detail/2'')]"

text \<open>A network with one search page for the keyword \<open>graph\<close> on cnki, listing one
  result; every other address shows the page with a title.\<close>

definition demo_web :: world where
  "demo_web =
     \<lparr>pages = (\<lambda>u. if u = ascii ''https://search.cnki.com.cn/Search/Result?content=graph''
                     then Response 200 (listing [item_with_link (ascii ''https://d.example/1'')])
                     else Response 200 title_page),
      requested = []\<rparr>"




definition titled :: "string \<Rightarrow> string \<Rightarrow> paper" where
  "titled u t = (new_paper (ascii u) (ascii ''cnki''))\<lparr>p_title := Val (ascii t)\<rparr>"

definition rec_a :: paper where
  "rec_a = titled ''https://a.example/1'' ''Graph Theory''"

definition rec_b :: paper where
  "rec_b = titled ''https://a.example/2'' ''graph   theory''"

definition rec_c :: paper where
  "rec_c = titled ''https://a.example/3'' ''Other''"

definition rec_a_again :: paper where
  "rec_a_again = titled ''https://a.example/4'' ''  Graph Theory ''"

definition untitled_1 :: paper where
  "untitled_1 = titled ''u1'' ''''"

definition untitled_2 :: paper where
  "untitled_2 = titled ''u2'' ''''"

definition cited :: "pystr entry \<Rightarrow> string \<Rightarrow> paper" where
  "cited d t = \<lparr>p_url = Val (ascii ''https://a.example/1''), p_platform = Val (ascii ''cnki''),
     p_title = Val (ascii t), p_authors = Val [ascii ''Ada Park'', ascii ''Bo Lind''],
     p_journal = Val (ascii ''Annals''), p_year = Val (ascii ''2020''), p_doi = d,
     p_abstract = Omitted\<rparr>"

section \<open>Citation formatting\<close>

lemma generate_reference_shape:
  "generate_reference paper =
     ref_label @ authors_text paper @ ascii ''. '' @ render (p_title paper) unknown_title
       @ ascii ''[J]. '' @ render (p_journal paper) unknown_journal @ ascii '', ''
       @ render (p_year paper) (ascii ''0000'')
       @ (if truthy (p_doi paper) then ascii ''. DOI: '' @ render (p_doi paper) [] else [])
       @ (if truthy (p_url paper) then [10] @ ascii ''SourceURL: '' @ render (p_url paper) [] else [])"
  by (simp add: generate_reference_def Let_def)

lemma sublist_split_at:
  assumes "sublist p (xs @ c # ys)" and "c \<notin> set p"
  shows "sublist p xs \<or> sublist p ys"
proof -
  from assms(1) consider "sublist p xs" | "sublist p (c # ys)"
    | p1 p2 where "p = p1 @ p2" "suffix p1 xs" "prefix p2 (c # ys)"
    by (auto simp: sublist_append)
  then show ?thesis
  proof cases
    case 1
    then show ?thesis by simp
  next
    case 2
    then have "prefix p (c # ys) \<or> sublist p ys" by (simp add: sublist_Cons_right)
    moreover have "prefix p (c # ys) \<Longrightarrow> p = []"
      using assms(2) by (cases p) auto
    ultimately show ?thesis by auto
  next
    case 3
    have "p2 = []" using 3(1,3) assms(2) by (cases p2) auto
    with 3 show ?thesis by auto
  qed
qed

lemma sublist_skip_sep:
  assumes "sublist p (sep @ ys)" and "set sep \<inter> set p = {}" and "p \<noteq> []"
  shows "sublist p ys"
  using assms
proof (induction sep)
  case Nil
  then show ?case by simp
next
  case (Cons c sep)
  from Cons.prems have "sublist p ([] @ c # (sep @ ys))" and "c \<notin> set p" by auto
  then have "sublist p [] \<or> sublist p (sep @ ys)" by (rule sublist_split_at)
  with Cons show ?case by auto
qed

lemma sublist_across_sep:
  assumes "sublist p (xs @ sep @ ys)" and "set sep \<inter> set p = {}" and "sep \<noteq> []" and "p \<noteq> []"
  shows "sublist p xs \<or> sublist p ys"
proof -
  obtain c sep' where sep: "sep = c # sep'" using assms(3) by (cases sep) auto
  with assms have "sublist p (xs @ c # (sep' @ ys))" and "c \<notin> set p" by auto
  then have "sublist p xs \<or> sublist p (sep' @ ys)" by (rule sublist_split_at)
  moreover have "sublist p (sep' @ ys) \<Longrightarrow> sublist p ys"
    using assms(2,4) sep by (auto intro: sublist_skip_sep)
  ultimately show ?thesis by blast
qed

lemma doi_mark_chars: "doi_mark = [68, 79, 73, 58]"
  by (simp add: doi_mark_def ascii_def)

lemma no_mark_in_label: "\<not> sublist doi_mark (ref_label @ xs) \<longleftrightarrow> \<not> sublist doi_mark xs"
proof -
  have "sublist doi_mark xs" if "sublist doi_mark (ref_label @ xs)"
    using that by (rule sublist_skip_sep) (simp_all add: doi_mark_chars ref_label_def)
  moreover have "sublist doi_mark xs \<Longrightarrow> sublist doi_mark (ref_label @ xs)"
    by (metis sublist_append)
  ultimately show ?thesis by blast
qed

lemma no_mark_source_url:
  assumes "sublist doi_mark (xs @ [10] @ ascii ''SourceURL: '' @ u)"
  shows "sublist doi_mark xs \<or> sublist doi_mark u"
proof -
  have eq: "xs @ [10] @ ascii ''SourceURL: '' @ u = xs @ ([10] @ ascii ''SourceURL'') @ (58 # 32 # u)"
    by (simp add: ascii_def)
  have "sublist doi_mark xs \<or> sublist doi_mark (58 # 32 # u)"
    using assms unfolding eq
    by (rule sublist_across_sep) (simp_all add: doi_mark_chars ascii_def)
  moreover have "sublist doi_mark u" if "sublist doi_mark (58 # 32 # u)"
  proof -
    from that have "sublist doi_mark (32 # u)"
      by (simp add: sublist_Cons_right doi_mark_chars)
    then have "sublist doi_mark ([] @ 32 # u)" by simp
    then have "sublist doi_mark [] \<or> sublist doi_mark u"
      by (rule sublist_split_at) (simp add: doi_mark_chars)
    then show ?thesis by (simp add: doi_mark_chars)
  qed
  ultimately show ?thesis by blast
qed

lemma no_mark_plain_sep:
  assumes "sublist doi_mark (xs @ ascii s @ ys)" and "set (ascii s) \<inter> set doi_mark = {}" and "s \<noteq> []"
  shows "sublist doi_mark xs \<or> sublist doi_mark ys"
  using assms(1,2)
  by (rule sublist_across_sep) (use assms(3) in \<open>simp_all add: doi_mark_chars ascii_def\<close>)

lemma no_mark_in_body:
  assumes "\<not> sublist doi_mark a" "\<not> sublist doi_mark t" "\<not> sublist doi_mark j" "\<not> sublist doi_mark y"
  shows "\<not> sublist doi_mark (ref_label @ a @ ascii ''. '' @ t @ ascii ''[J]. '' @ j @ ascii '', '' @ y)"
proof
  assume "sublist doi_mark (ref_label @ a @ ascii ''. '' @ t @ ascii ''[J]. '' @ j @ ascii '', '' @ y)"
  then have "sublist doi_mark (a @ ascii ''. '' @ t @ ascii ''[J]. '' @ j @ ascii '', '' @ y)"
    using no_mark_in_label by blast
  then have "sublist doi_mark a \<or> sublist doi_mark (t @ ascii ''[J]. '' @ j @ ascii '', '' @ y)"
    by (rule no_mark_plain_sep) (simp_all add: ascii_def doi_mark_chars)
  with assms(1) have "sublist doi_mark (t @ ascii ''[J]. '' @ j @ ascii '', '' @ y)" by simp
  then have "sublist doi_mark t \<or> sublist doi_mark (j @ ascii '', '' @ y)"
    by (rule no_mark_plain_sep) (simp_all add: ascii_def doi_mark_chars)
  with assms(2) have "sublist doi_mark (j @ ascii '', '' @ y)" by simp
  then have "sublist doi_mark j \<or> sublist doi_mark y"
    by (rule no_mark_plain_sep) (simp_all add: ascii_def doi_mark_chars)
  with assms(3) have "sublist doi_mark y" by simp
  with assms(4) show False by simp
qed

text \<open>
  Claim C6, as amended. When \<^verbatim>\<open>doi\<close> is a non-empty string, the reference contains the
  text \<open>DOI: \<close> followed by that string. When \<^verbatim>\<open>doi\<close> is missing, \<^verbatim>\<open>None\<close> or empty,
  nothing about a DOI is appended: the reference contains \<open>DOI:\<close> only if the rendered
  authors, title, journal, year or URL already does. When \<^verbatim>\<open>url\<close> is a non-empty string,
  the reference ends with a line feed, \<open>SourceURL: \<close> and the URL.
\<close>

theorem reference_doi_presence:
  "(p_doi paper = Val d \<and> d \<noteq> [] \<longrightarrow> sublist (ascii ''DOI: '' @ d) (generate_reference paper)) \<and>
   (\<not> truthy (p_doi paper) \<and> \<not> sublist doi_mark (authors_text paper)
      \<and> \<not> sublist doi_mark (render (p_title paper) unknown_title)
      \<and> \<not> sublist doi_mark (render (p_journal paper) unknown_journal)
      \<and> \<not> sublist doi_mark (render (p_year paper) (ascii ''0000''))
      \<and> \<not> sublist doi_mark (render (p_url paper) [])
      \<longrightarrow> \<not> sublist doi_mark (generate_reference paper)) \<and>
   (p_url paper = Val u \<and> u \<noteq> [] \<longrightarrow>
      suffix ([10] @ ascii ''SourceURL: '' @ u) (generate_reference paper))"
proof (intro conjI impI)
  assume "p_doi paper = Val d \<and> d \<noteq> []"
  then have "generate_reference paper =
      (ref_label @ authors_text paper @ ascii ''. '' @ render (p_title paper) unknown_title
        @ ascii ''[J]. '' @ render (p_journal paper) unknown_journal @ ascii '', ''
        @ render (p_year paper) (ascii ''0000'') @ ascii ''. '') @ (ascii ''DOI: '' @ d)
        @ (if truthy (p_url paper) then [10] @ ascii ''SourceURL: '' @ render (p_url paper) [] else [])"
    by (simp add: generate_reference_shape ascii_def)
  then show "sublist (ascii ''DOI: '' @ d) (generate_reference paper)"
    by (metis sublist_appendI)
next
  assume h: "\<not> truthy (p_doi paper) \<and> \<not> sublist doi_mark (authors_text paper)
      \<and> \<not> sublist doi_mark (render (p_title paper) unknown_title)
      \<and> \<not> sublist doi_mark (render (p_journal paper) unknown_journal)
      \<and> \<not> sublist doi_mark (render (p_year paper) (ascii ''0000''))
      \<and> \<not> sublist doi_mark (render (p_url paper) [])"
  let ?body = "ref_label @ authors_text paper @ ascii ''. '' @ render (p_title paper) unknown_title
        @ ascii ''[J]. '' @ render (p_journal paper) unknown_journal @ ascii '', ''
        @ render (p_year paper) (ascii ''0000'')"
  have body: "\<not> sublist doi_mark ?body"
    using h by (intro no_mark_in_body) simp_all
  show "\<not> sublist doi_mark (generate_reference paper)"
  proof (cases "truthy (p_url paper)")
    case True
    with h have "generate_reference paper = ?body @ [10] @ ascii ''SourceURL: '' @ render (p_url paper) []"
      by (simp add: generate_reference_shape)
    with body h no_mark_source_url [of ?body "render (p_url paper) []"] show ?thesis by auto
  next
    case False
    with h have "generate_reference paper = ?body" by (simp add: generate_reference_shape)
    with body show ?thesis by simp
  qed
next
  assume "p_url paper = Val u \<and> u \<noteq> []"
  then show "suffix ([10] @ ascii ''SourceURL: '' @ u) (generate_reference paper)"
    by (simp add: generate_reference_shape suffix_def)
qed

theorem reference_doi_presence_witness:
  "p_doi (cited (Val (ascii ''10.1/xyz'')) ''Graph Theory'') = Val (ascii ''10.1/xyz'') \<and>
   sublist (ascii ''DOI: 10.1/xyz'')
     (generate_reference (cited (Val (ascii ''10.1/xyz'')) ''Graph Theory'')) \<and>
   \<not> truthy (p_doi (cited PNone ''Graph Theory'')) \<and>
   \<not> sublist doi_mark (generate_reference (cited PNone ''Graph Theory'')) \<and>
   suffix ([10] @ ascii ''SourceURL: https://a.example/1'')
     (generate_reference (cited PNone ''Graph Theory''))"
  using reference_doi_presence [of "cited (Val (ascii ''10.1/xyz'')) ''Graph Theory''"
          "ascii ''10.1/xyz''" "ascii ''https://a.example/1''"]
        reference_doi_presence [of "cited PNone ''Graph Theory''" "[]"
          "ascii ''https://a.example/1''"]
  by (simp add: cited_def authors_text_def get_list_def doi_mark_def ascii_def
        sublist_Cons_right)

text \<open>
  Claim C6 as stated fails: a record without a DOI whose title contains \<open>DOI:\<close> is
  formatted into a string that contains \<open>DOI:\<close>.
\<close>

theorem reference_doi_counterexample:
  "p_doi (cited Omitted ''DOI: what it names'') = Omitted \<and>
   sublist (ascii ''DOI:'') (generate_reference (cited Omitted ''DOI: what it names''))"
  by (simp add: cited_def generate_reference_def authors_text_def get_list_def ascii_def
        ref_label_def sublist_Cons_right)

text \<open>A record none of whose keys is set gets every placeholder.\<close>

lemma generate_reference_placeholders:
  assumes "p_authors paper = Omitted" "p_title paper = Omitted" "p_journal paper = Omitted"
    "p_year paper = Omitted" "p_doi paper = Omitted" "p_url paper = Omitted"
  shows "generate_reference paper =
           ref_label @ unknown_author @ ascii ''. '' @ unknown_title @ ascii ''[J]. ''
             @ unknown_journal @ ascii '', 0000''"
  using assms by (simp add: generate_reference_shape authors_text_def ascii_def)

text \<open>
  Claim C7, at the input where the code departs from it. The record is what
  \<^verbatim>\<open>get_paper_details\<close> returns for a cnki page that has a title and nothing else: its
  \<^verbatim>\<open>journal\<close> is \<^verbatim>\<open>None\<close>, and the reference shows the text \<open>None\<close> where the claim
  promises the placeholder for an unknown journal.
\<close>

theorem reference_none_journal:
  "fst (get_paper_details (ascii ''u1'') (ascii ''cnki'') (web_of title_page)) =
     Some \<lparr>p_url = Val (ascii ''u1''), p_platform = Val (ascii ''cnki''),
       p_title = Val (ascii ''Graph Theory''), p_authors = Val [], p_journal = PNone,
       p_year = Omitted, p_doi = PNone, p_abstract = Omitted\<rparr> \<and>
   generate_reference \<lparr>p_url = Val (ascii ''u1''), p_platform = Val (ascii ''cnki''),
       p_title = Val (ascii ''Graph Theory''), p_authors = Val [], p_journal = PNone,
       p_year = Omitted, p_doi = PNone, p_abstract = Omitted\<rparr> =
     ref_label @ unknown_author @ ascii ''. Graph Theory[J]. None, 0000'' @ [10]
       @ ascii ''SourceURL: u1''"
  by (simp add: get_paper_details_def requests_get_def web_of_def is_error_status_def
        new_paper_def details_cnki_def title_page_def text_node_def select_one_def select_def
        or_else_def text_or_none_def content_or_def get_text_def strip_def isspace_def
        sel_citation_doi_def generate_reference_def authors_text_def unknown_author_def
        ref_label_def ascii_def)

section \<open>The search resolver\<close>

lemma search_urls_keys: "map fst (search_urls keyword max_results) = supported_platforms"
  by (simp add: search_urls_def supported_platforms_def)

text \<open>
  Claim C8. For a platform that is not a key of \<^verbatim>\<open>search_urls\<close>, \<^verbatim>\<open>search_papers\<close> raises
  the \<^verbatim>\<open>ValueError\<close> for an unsupported platform and leaves the world as it was: no
  request has been issued.
\<close>

theorem unsupported_platform_raises_before_fetch:
  assumes "platform \<notin> set supported_platforms"
  shows "search_papers keyword platform max_results w =
           (Inl (ValueError (ascii ''Unsupported platform: '' @ platform)), w) \<and>
         requested (snd (search_papers keyword platform max_results w)) = requested w"
proof -
  have "platform \<notin> fst ` set (search_urls keyword max_results)"
    using assms search_urls_keys [of keyword max_results] by (metis set_map)
  then have "map_of (search_urls keyword max_results) platform = None"
    by (simp add: map_of_eq_None_iff)
  then show ?thesis by (simp add: search_papers_def)
qed

theorem unsupported_platform_witness:
  "ascii ''pubmed'' \<notin> set supported_platforms \<and>
   search_papers (ascii ''graph'') (ascii ''pubmed'') 5 (web_of blank_page) =
     (Inl (ValueError (ascii ''Unsupported platform: pubmed'')), web_of blank_page) \<and>
   requested (snd (search_papers (ascii ''graph'') (ascii ''pubmed'') 5 (web_of blank_page))) = []"
  using unsupported_platform_raises_before_fetch
          [of "ascii ''pubmed''" "ascii ''graph''" 5 "web_of blank_page"]
  by (simp add: supported_platforms_def ascii_def web_of_def)

text \<open>For a supported platform exactly one request is issued, whatever comes back.\<close>

lemma supported_platform_fetches:
  assumes "platform \<in> set supported_platforms"
  shows "length (requested (snd (search_papers keyword platform max_results w)))
           = Suc (length (requested w))"
  using assms
  by (auto simp: supported_platforms_def search_papers_def search_urls_def requests_get_def
      split: response.splits)

section \<open>Deduplication\<close>

lemma strip_Nil [simp]: "strip [] = []"
  by (simp add: strip_def)

lemma stripped_title_key:
  "p_title r \<noteq> PNone \<Longrightarrow> stripped_title r = Inr (title_key r)"
  by (cases "p_title r") (simp_all add: stripped_title_def title_key_def)

text \<open>The loop, started with any set of seen titles and any list of kept records,
  appends what the specification keeps of the records whose key is not yet seen.\<close>

lemma dedupe_loop_first_seen:
  assumes "\<forall>r\<in>set rs. p_title r \<noteq> PNone"
  shows "dedupe_loop rs seen acc =
           Inr (acc @ keep_first_seen (filter (\<lambda>x. title_key x \<notin> seen) rs))"
  using assms
proof (induction rs arbitrary: seen acc)
  case Nil
  then show ?case by simp
next
  case (Cons r rs)
  have st: "stripped_title r = Inr (title_key r)"
    using Cons.prems by (simp add: stripped_title_key)
  have tl: "\<forall>x\<in>set rs. p_title x \<noteq> PNone" using Cons.prems by simp
  show ?case
  proof (cases "title_key r \<noteq> [] \<and> title_key r \<notin> seen")
    case True
    have f: "filter (\<lambda>x. title_key x \<noteq> title_key r) (filter (\<lambda>x. title_key x \<notin> seen) rs)
           = filter (\<lambda>x. title_key x \<notin> insert (title_key r) seen) rs"
      by (simp add: conj_commute)
    show ?thesis
      using True st Cons.IH [OF tl, of "insert (title_key r) seen" "acc @ [r]"] f by simp
  next
    case False
    then show ?thesis
      using st Cons.IH [OF tl, of seen acc] by auto
  qed
qed

lemma keep_first_seen_keys:
  "set (map title_key (keep_first_seen rs)) \<subseteq> set (map title_key rs)"
  by (induction rs rule: keep_first_seen.induct) auto

text \<open>What the specification keeps is in the order of the input, and no two kept
  records have the same key.\<close>

lemma keep_first_seen_subseq: "subseq (keep_first_seen rs) rs"
proof (induction rs rule: keep_first_seen.induct)
  case 1
  then show ?case by simp
next
  case (2 r rs)
  show ?case
  proof (cases "title_key r = []")
    case True
    with 2 show ?thesis by auto
  next
    case False
    with 2 have "subseq (keep_first_seen (filter (\<lambda>x. title_key x \<noteq> title_key r) rs))
                   (filter (\<lambda>x. title_key x \<noteq> title_key r) rs)" by simp
    then have "subseq (keep_first_seen (filter (\<lambda>x. title_key x \<noteq> title_key r) rs)) rs"
      using subseq_filter_left subseq_order.order_trans by blast
    with False show ?thesis by simp
  qed
qed

lemma keep_first_seen_distinct: "distinct (map title_key (keep_first_seen rs))"
proof (induction rs rule: keep_first_seen.induct)
  case 1
  then show ?case by simp
next
  case (2 r rs)
  show ?case
  proof (cases "title_key r = []")
    case True
    with 2 show ?thesis by simp
  next
    case False
    have "title_key r \<notin> set (map title_key (filter (\<lambda>x. title_key x \<noteq> title_key r) rs))"
      by auto
    then have "title_key r \<notin>
        set (map title_key (keep_first_seen (filter (\<lambda>x. title_key x \<noteq> title_key r) rs)))"
      using keep_first_seen_keys by blast
    with False 2 show ?thesis by simp
  qed
qed

text \<open>Whatever the loop has kept so far has a non-empty key, and so has what it returns.\<close>

lemma dedupe_loop_nonempty_keys:
  assumes "dedupe_loop rs seen acc = Inr out" and "list_all (\<lambda>r. title_key r \<noteq> []) acc"
  shows "list_all (\<lambda>r. title_key r \<noteq> []) out"
  using assms
proof (induction rs arbitrary: seen acc)
  case Nil
  then show ?case by simp
next
  case (Cons r rs)
  show ?case
  proof (cases "p_title r")
    case Omitted
    with Cons show ?thesis by (simp add: stripped_title_def)
  next
    case PNone
    with Cons show ?thesis by (simp add: stripped_title_def)
  next
    case (Val t)
    then have k: "title_key r = strip t" by (simp add: title_key_def)
    show ?thesis
    proof (cases "strip t \<noteq> [] \<and> strip t \<notin> seen")
      case True
      with Cons.prems Val have "dedupe_loop rs (insert (strip t) seen) (acc @ [r]) = Inr out"
        by (simp add: stripped_title_def)
      moreover have "list_all (\<lambda>r. title_key r \<noteq> []) (acc @ [r])"
        using Cons.prems(2) True k by simp
      ultimately show ?thesis by (rule Cons.IH)
    next
      case False
      with Cons.prems Val have "dedupe_loop rs seen acc = Inr out"
        by (auto simp: stripped_title_def)
      then show ?thesis using Cons.prems(2) by (rule Cons.IH)
    qed
  qed
qed

text \<open>A title that is \<^verbatim>\<open>None\<close> stops the loop with the \<^verbatim>\<open>AttributeError\<close> of
  \<^verbatim>\<open>None.strip()\<close>.\<close>

lemma dedupe_loop_none_title:
  "p_title r = PNone \<Longrightarrow> dedupe_loop (r # rs) seen acc = Inl AttributeError"
  by (simp add: stripped_title_def)

lemmas eval_dedupe =
  dedupe_def titled_def new_paper_def stripped_title_def title_key_def strip_def isspace_def
  ascii_def

text \<open>
  Claim C1, as amended. The key is the title with the whitespace at its two ends removed,
  compared as it is: inner whitespace and letter case are kept. On records whose title
  is a string or missing, the loop returns, in input order, the first record of every
  non-empty key; later records with the same key are dropped, and so are the records
  with an empty key. No two records of the result share a key.
\<close>

theorem dedupe_keeps_first_seen:
  assumes "\<forall>r\<in>set rs. p_title r \<noteq> PNone"
  shows "dedupe rs = Inr (keep_first_seen rs) \<and> subseq (keep_first_seen rs) rs \<and>
         distinct (map title_key (keep_first_seen rs))"
  using dedupe_loop_first_seen [OF assms, of "{}" "[]"] keep_first_seen_subseq
    keep_first_seen_distinct
  by (simp add: dedupe_def)

theorem dedupe_keeps_first_seen_witness:
  "p_title rec_a \<noteq> PNone \<and> p_title rec_b \<noteq> PNone \<and> p_title rec_a_again \<noteq> PNone \<and>
   p_title rec_c \<noteq> PNone \<and>
   dedupe [rec_a, rec_b, rec_a_again, rec_c] = Inr [rec_a, rec_b, rec_c] \<and>
   keep_first_seen [rec_a, rec_b, rec_a_again, rec_c] = [rec_a, rec_b, rec_c]"
proof -
  have h: "\<forall>r\<in>set [rec_a, rec_b, rec_a_again, rec_c]. p_title r \<noteq> PNone"
    by (simp add: rec_a_def rec_b_def rec_c_def rec_a_again_def titled_def)
  have d: "dedupe [rec_a, rec_b, rec_a_again, rec_c] = Inr [rec_a, rec_b, rec_c]"
    by (simp add: rec_a_def rec_b_def rec_c_def rec_a_again_def eval_dedupe)
  from dedupe_keeps_first_seen [OF h] d h show ?thesis by simp
qed

text \<open>
  Claim C1 as stated fails: the titles \<open>Graph Theory\<close> and \<open>graph   theory\<close> are
  different keys for the loop, so all three records of the example are kept.
\<close>

theorem dedupe_case_counterexample:
  "dedupe [rec_a, rec_b, rec_c] = Inr [rec_a, rec_b, rec_c] \<and>
   dedupe [rec_a, rec_b, rec_c] \<noteq> Inr [rec_a, rec_c]"
  by (simp add: rec_a_def rec_b_def rec_c_def eval_dedupe)

text \<open>
  Claim C3, as amended. A record whose stripped title is empty is never kept: every
  record the loop returns has a non-empty key.
\<close>

theorem dedupe_drops_empty_titles:
  assumes "dedupe rs = Inr out"
  shows "list_all (\<lambda>r. title_key r \<noteq> []) out"
  using assms dedupe_loop_nonempty_keys [of rs "{}" "[]" out] by (simp add: dedupe_def)

theorem dedupe_drops_empty_titles_witness:
  "dedupe [untitled_1, rec_c, untitled_2] = Inr [rec_c] \<and>
   list_all (\<lambda>r. title_key r \<noteq> []) [rec_c]"
proof -
  have d: "dedupe [untitled_1, rec_c, untitled_2] = Inr [rec_c]"
    by (simp add: untitled_1_def untitled_2_def rec_c_def eval_dedupe)
  from dedupe_drops_empty_titles [OF d] d show ?thesis by simp
qed

text \<open>
  Claim C3 as stated fails: of two records with the empty title neither is kept.
\<close>

theorem dedupe_empty_titles_counterexample:
  "dedupe [untitled_1, untitled_2] = Inr [] \<and>
   dedupe [untitled_1, untitled_2] \<noteq> Inr [untitled_1, untitled_2]"
  by (simp add: untitled_1_def untitled_2_def eval_dedupe)

section \<open>The result cap\<close>

lemma ascii_eq_iff [simp]: "ascii s = ascii t \<longleftrightarrow> s = t"
  by (simp add: ascii_def inj_on_def)

text \<open>The loop appends, in order, the URL of every item that has one.\<close>

lemma collect_links_map_filter:
  "collect_links link_sel base items urls =
     urls @ map (\<lambda>h. base @ h) (List.map_filter (usable_href link_sel) items)"
  by (induction items arbitrary: urls) (simp_all split: option.splits)

lemma map_map_filter:
  "map g (List.map_filter f xs) = List.map_filter (\<lambda>x. map_option g (f x)) xs"
  by (induction xs) (simp_all split: option.splits)

lemma map_filter_append:
  "List.map_filter f (xs @ ys) = List.map_filter f xs @ List.map_filter f ys"
  by (simp add: List.map_filter_def)

lemma length_map_filter_le: "length (List.map_filter f xs) \<le> length xs"
  by (simp add: List.map_filter_def)

lemma map_filter_all_some:
  "list_all (\<lambda>x. f x \<noteq> None) xs \<Longrightarrow> length (List.map_filter f xs) = length xs"
  by (induction xs) auto

lemma collect_links_plain:
  "collect_links link_sel [] items [] = List.map_filter (usable_href link_sel) items"
  by (simp add: collect_links_map_filter)

lemma map_option_append_Nil: "map_option ((@) []) x = x"
  by (cases x) simp_all

lemma collect_links_based:
  "collect_links link_sel base items [] =
     List.map_filter (\<lambda>x. map_option (\<lambda>h. base @ h) (usable_href link_sel x)) items"
  by (simp add: collect_links_map_filter map_map_filter)

lemma slice_to_Nil [simp]: "slice_to n [] = []"
  by (simp add: slice_to_def)

text \<open>The cap is a slice of the list of result containers, taken before the loop looks
  for a link in any of them.\<close>

lemma platform_links_slice:
  "platform_links platform soup max_results =
     List.map_filter (result_url platform) (slice_to max_results (result_items platform soup))"
  unfolding platform_links_def result_items_def result_url_def
  by (simp only: collect_links_plain collect_links_based) (simp add: map_option_append_Nil option.map_ident)


lemma search_cnki_slice:
  "fst (search_cnki keyword max_results w) =
     (case pages w (ascii ''https://search.cnki.com.cn/Search/Result?content='' @ keyword) of
        ConnectionError \<Rightarrow> []
      | Response st soup \<Rightarrow>
          List.map_filter (usable_href ''a'')
            (slice_to max_results (select soup ''.result-list li'')))"
  by (simp add: search_cnki_def requests_get_def collect_links_map_filter
        split: response.splits)

lemma search_papers_fetched:
  assumes "map_of (search_urls keyword max_results) platform = Some u"
    and "pages w u = Response st soup" and "\<not> is_error_status st"
  shows "fst (search_papers keyword platform max_results w) =
           Inr (platform_links platform soup max_results)"
  using assms by (simp add: search_papers_def requests_get_def)

text \<open>
  Claim C5, as amended. For a cap \<open>c > 0\<close> and a search page that arrives without an
  error status, \<^verbatim>\<open>search_papers\<close> returns without error the URLs found in the first \<open>c\<close>
  result containers: at most \<open>c\<close> of them, and a prefix of the page's result links in
  document order. It returns exactly \<open>c\<close> when the page has at least \<open>c\<close> containers
  and each of the first \<open>c\<close> holds a link with a non-empty \<^verbatim>\<open>href\<close>, as on a page of 20
  containers with one link each and \<open>c = 5\<close>.
\<close>

theorem search_papers_cap:
  assumes "0 < c" and "map_of (search_urls keyword c) platform = Some u"
    and "pages w u = Response st soup" and "\<not> is_error_status st"
  shows "\<exists>urls. fst (search_papers keyword platform c w) = Inr urls \<and>
           urls = List.map_filter (result_url platform) (take (nat c) (result_items platform soup)) \<and>
           length urls \<le> nat c \<and>
           prefix urls (List.map_filter (result_url platform) (result_items platform soup)) \<and>
           (nat c \<le> length (result_items platform soup) \<and>
            list_all (\<lambda>item. result_url platform item \<noteq> None)
              (take (nat c) (result_items platform soup))
            \<longrightarrow> length urls = nat c)"
proof -
  let ?items = "result_items platform soup"
  let ?urls = "List.map_filter (result_url platform) (take (nat c) ?items)"
  have r: "fst (search_papers keyword platform c w) = Inr ?urls"
    using assms search_papers_fetched [OF assms(2,3,4)]
    by (simp add: platform_links_slice slice_to_def)
  have l: "length ?urls \<le> nat c"
    using length_map_filter_le [of "result_url platform" "take (nat c) ?items"] by simp
  have "List.map_filter (result_url platform) ?items =
          ?urls @ List.map_filter (result_url platform) (drop (nat c) ?items)"
    by (metis append_take_drop_id map_filter_append)
  then have p: "prefix ?urls (List.map_filter (result_url platform) ?items)"
    by (simp add: prefix_def)
  have e: "length ?urls = nat c"
    if "nat c \<le> length ?items \<and>
        list_all (\<lambda>item. result_url platform item \<noteq> None) (take (nat c) ?items)"
    using that map_filter_all_some [of "result_url platform" "take (nat c) ?items"] by simp
  from r l p e show ?thesis by blast
qed

lemmas eval_listing =
  web_of_def listing_def item_with_link_def item_without_link_def result_items_def
  result_url_def usable_href_def select_one_def select_def attr_def slice_to_def
  is_error_status_def ascii_def

theorem search_papers_cap_witness:
  "(0::int) < 5 \<and>
   map_of (search_urls (ascii ''graph'') 5) (ascii ''cnki'') =
     Some (ascii ''https://search.cnki.com.cn/Search/Result?content=graph'') \<and>
   pages (web_of full_listing) (ascii ''https://search.cnki.com.cn/Search/Result?content=graph'')
     = Response 200 full_listing \<and>
   \<not> is_error_status 200 \<and>
   fst (search_papers (ascii ''graph'') (ascii ''cnki'') 5 (web_of full_listing)) =
     Inr [ascii ''/kcms/detail/1'', ascii ''/kcms/detail/2'', ascii ''/kcms/detail/3'',
          ascii ''/kcms/detail/4'', ascii ''/kcms/detail/5'']"
proof -
  have h2: "map_of (search_urls (ascii ''graph'') 5) (ascii ''cnki'') =
     Some (ascii ''https://search.cnki.com.cn/Search/Result?content=graph'')"
    by (simp add: search_urls_def ascii_def)
  have h3: "pages (web_of full_listing)
      (ascii ''https://search.cnki.com.cn/Search/Result?content=graph'') = Response 200 full_listing"
    by (simp add: web_of_def)
  have h4: "\<not> is_error_status 200" by (simp add: is_error_status_def)
  have v: "fst (search_papers (ascii ''graph'') (ascii ''cnki'') 5 (web_of full_listing)) =
     Inr [ascii ''/kcms/detail/1'', ascii ''/kcms/detail/2'', ascii ''/kcms/detail/3'',
          ascii ''/kcms/detail/4'', ascii ''/kcms/detail/5'']"
    by (simp add: search_papers_def search_urls_def requests_get_def platform_links_slice
          full_listing_def twenty_items_def eval_listing str_nat.simps)
  from search_papers_cap [OF _ h2 h3 h4] v h2 h3 h4 show ?thesis by simp
qed

text \<open>
  Claim C5 as stated fails: this page exposes 20 result links, in 21 containers of which
  the first has no link, and with the cap 5 only four URLs come back.
\<close>

theorem search_papers_cap_counterexample:
  "length (List.map_filter (result_url (ascii ''cnki''))
             (result_items (ascii ''cnki'') padded_listing)) = 20 \<and>
   fst (search_papers (ascii ''graph'') (ascii ''cnki'') 5 (web_of padded_listing)) =
     Inr [ascii ''/kcms/detail/1'', ascii ''/kcms/detail/2'', ascii ''/kcms/detail/3'',
          ascii ''/kcms/detail/4'']"
proof -
  have a: "list_all (\<lambda>x. result_url (ascii ''cnki'') x \<noteq> None) twenty_items"
    by (simp add: twenty_items_def list_all_iff result_url_def usable_href_def item_with_link_def
          select_one_def select_def attr_def ascii_def str_nat.simps)
  have i: "result_items (ascii ''cnki'') padded_listing = item_without_link # twenty_items"
    by (simp add: padded_listing_def listing_def result_items_def select_def)
  have n: "result_url (ascii ''cnki'') item_without_link = None"
    by (simp add: result_url_def usable_href_def item_without_link_def select_one_def
          select_def ascii_def)
  have "length (List.map_filter (result_url (ascii ''cnki''))
             (result_items (ascii ''cnki'') padded_listing)) = length twenty_items"
    using map_filter_all_some [OF a] by (simp add: i n)
  then have "length (List.map_filter (result_url (ascii ''cnki''))
             (result_items (ascii ''cnki'') padded_listing)) = 20"
    by (simp add: twenty_items_def)
  moreover have "fst (search_papers (ascii ''graph'') (ascii ''cnki'') 5 (web_of padded_listing)) =
     Inr [ascii ''/kcms/detail/1'', ascii ''/kcms/detail/2'', ascii ''/kcms/detail/3'',
          ascii ''/kcms/detail/4'']"
    by (simp add: search_papers_def search_urls_def requests_get_def platform_links_slice
          padded_listing_def twenty_items_def eval_listing str_nat.simps)
  ultimately show ?thesis by simp
qed

text \<open>
  Claim C10. The cap cuts the list of containers before any of them is checked for a
  link (\<open>platform_links_slice\<close>, \<open>search_cnki_slice\<close>). So on this page, which holds
  two result links in three containers, the cap 2 gives one URL, fewer than the cap, from
  \<^verbatim>\<open>search_papers\<close> and from \<^verbatim>\<open>search_cnki\<close> alike.
\<close>

theorem cap_before_link_check:
  "length (List.map_filter (result_url (ascii ''cnki''))
             (result_items (ascii ''cnki'') sparse_listing)) = 2 \<and>
   fst (search_papers (ascii ''graph'') (ascii ''cnki'') 2 (web_of sparse_listing)) =
     Inr [ascii ''/kcms/detail/1''] \<and>
   fst (search_cnki (ascii ''graph'') 2 (web_of sparse_listing)) = [ascii ''/kcms/detail/1'']"
  by (simp add: search_papers_def search_urls_def requests_get_def platform_links_slice
        search_cnki_slice sparse_listing_def eval_listing)

section \<open>The detail extractor\<close>

lemma truthy_iff: "truthy e \<longleftrightarrow> (\<exists>v. e = Val v \<and> v \<noteq> [])"
  by (cases e) simp_all

lemma select_one_empty [simp]: "select e sel = [] \<Longrightarrow> select_one e sel = None"
  by (simp add: select_one_def)

lemmas eval_page =
  requests_get_def web_of_def is_error_status_def new_paper_def select_one_def select_def
  or_else_def text_or_none_def content_or_def attr_def get_text_def strip_def isspace_def
  text_node_def first_four_def sel_citation_doi_def sel_citation_title_def
  sel_citation_journal_title_def sel_citation_date_def ascii_def

text \<open>The two extractors of thesis\_paper\_searcher.py end with a test of the title.\<close>

lemma get_cnki_paper_details_title:
  assumes "fst (get_cnki_paper_details isdigit url w) = Some p"
  shows "truthy (p_title p)"
  using assms
  by (auto simp: get_cnki_paper_details_def requests_get_def Let_def
      split: response.splits option.splits if_splits)

lemma get_arxiv_paper_details_title:
  assumes "fst (get_arxiv_paper_details url w) = Some p"
  shows "truthy (p_title p)"
  using assms
  by (auto simp: get_arxiv_paper_details_def requests_get_def Let_def
      split: response.splits option.splits if_splits)

text \<open>\<^verbatim>\<open>search_and_extract\<close> keeps a record only if its title is truthy.\<close>

lemma extract_all_titles:
  assumes "extract_all platform urls papers w = (out, w')"
    and "list_all (\<lambda>p. truthy (p_title p)) papers"
  shows "list_all (\<lambda>p. truthy (p_title p)) out"
  using assms
proof (induction urls arbitrary: papers w)
  case Nil
  then show ?case by simp
next
  case (Cons url urls)
  obtain r w1 where g: "get_paper_details url platform w = (r, w1)"
    by (cases "get_paper_details url platform w")
  show ?case
  proof (cases r)
    case None
    with Cons.prems g have "extract_all platform urls papers w1 = (out, w')" by simp
    then show ?thesis using Cons.prems(2) by (rule Cons.IH)
  next
    case (Some paper)
    show ?thesis
    proof (cases "truthy (p_title paper)")
      case True
      with Cons.prems g Some have "extract_all platform urls (papers @ [paper]) w1 = (out, w')"
        by simp
      moreover have "list_all (\<lambda>p. truthy (p_title p)) (papers @ [paper])"
        using Cons.prems(2) True by simp
      ultimately show ?thesis by (rule Cons.IH)
    next
      case False
      with Cons.prems g Some have "extract_all platform urls papers w1 = (out, w')" by simp
      then show ?thesis using Cons.prems(2) by (rule Cons.IH)
    qed
  qed
qed

lemma search_and_extract_titles:
  assumes "fst (search_and_extract keyword platform max_results w) = Inr papers"
  shows "list_all (\<lambda>p. truthy (p_title p)) papers"
proof -
  obtain r w1 where s: "search_papers keyword platform max_results w = (r, w1)"
    by (cases "search_papers keyword platform max_results w")
  show ?thesis
  proof (cases r)
    case (Inl e)
    with assms s show ?thesis by (simp add: search_and_extract_def)
  next
    case (Inr urls)
    obtain out w2 where e: "extract_all platform urls [] w1 = (out, w2)"
      by (cases "extract_all platform urls [] w1")
    with assms s Inr have "out = papers" by (simp add: search_and_extract_def)
    with extract_all_titles [OF e] show ?thesis by simp
  qed
qed

text \<open>
  Claim C2, as amended. \<^verbatim>\<open>get_cnki_paper_details\<close> and \<^verbatim>\<open>get_arxiv_paper_details\<close> return a
  record only with a non-empty title (and \<^verbatim>\<open>None\<close> otherwise), every record that
  \<^verbatim>\<open>search_and_extract\<close> returns has a non-empty title, and so has every record that
  passes \<^verbatim>\<open>verify_reference\<close>.
\<close>

theorem returned_titles_nonempty:
  "(fst (get_cnki_paper_details isdigit url w) = Some p \<longrightarrow> (\<exists>t. p_title p = Val t \<and> t \<noteq> [])) \<and>
   (fst (get_arxiv_paper_details url w) = Some p \<longrightarrow> (\<exists>t. p_title p = Val t \<and> t \<noteq> [])) \<and>
   (fst (search_and_extract keyword platform max_results w) = Inr papers \<longrightarrow>
      list_all (\<lambda>p. \<exists>t. p_title p = Val t \<and> t \<noteq> []) papers) \<and>
   (verify_reference p \<longrightarrow> (\<exists>t. p_title p = Val t \<and> t \<noteq> []))"
  using get_cnki_paper_details_title [of isdigit url w p]
    get_arxiv_paper_details_title [of url w p]
    search_and_extract_titles [of keyword platform max_results w papers]
  by (simp add: truthy_iff verify_reference_def)

theorem returned_titles_nonempty_witness:
  "fst (get_cnki_paper_details ascii_digit (ascii ''u1'') (web_of title_page)) =
     Some ((new_paper (ascii ''u1'') (ascii ''cnki''))\<lparr>p_title := Val (ascii ''Graph Theory''),
        p_authors := Val [], p_journal := PNone, p_doi := PNone\<rparr>) \<and>
   fst (get_arxiv_paper_details (ascii ''u1'') (web_of arxiv_page)) =
     Some ((new_paper (ascii ''u1'') (ascii ''arxiv''))\<lparr>p_title := Val (ascii ''Graph Theory''),
        p_authors := Val [], p_journal := Val (ascii ''arXiv preprint''), p_year := PNone,
        p_doi := PNone\<rparr>) \<and>
   fst (search_and_extract (ascii ''graph'') (ascii ''cnki'') 5 demo_web) =
     Inr [(new_paper (ascii ''https://d.example/1'') (ascii ''cnki''))\<lparr>
        p_title := Val (ascii ''Graph Theory''), p_authors := Val [], p_journal := PNone,
        p_doi := PNone\<rparr>] \<and>
   verify_reference ((new_paper (ascii ''u1'') (ascii ''cnki''))\<lparr>
        p_title := Val (ascii ''Graph Theory'')\<rparr>)"
proof -
  have a: "fst (get_cnki_paper_details ascii_digit (ascii ''u1'') (web_of title_page)) =
     Some ((new_paper (ascii ''u1'') (ascii ''cnki''))\<lparr>p_title := Val (ascii ''Graph Theory''),
        p_authors := Val [], p_journal := PNone, p_doi := PNone\<rparr>)"
    by (simp add: get_cnki_paper_details_def title_page_def eval_page)
  have b: "fst (get_arxiv_paper_details (ascii ''u1'') (web_of arxiv_page)) =
     Some ((new_paper (ascii ''u1'') (ascii ''arxiv''))\<lparr>p_title := Val (ascii ''Graph Theory''),
        p_authors := Val [], p_journal := Val (ascii ''arXiv preprint''), p_year := PNone,
        p_doi := PNone\<rparr>)"
    by (simp add: get_arxiv_paper_details_def arxiv_page_def eval_page)
  have c: "fst (search_and_extract (ascii ''graph'') (ascii ''cnki'') 5 demo_web) =
     Inr [(new_paper (ascii ''https://d.example/1'') (ascii ''cnki''))\<lparr>
        p_title := Val (ascii ''Graph Theory''), p_authors := Val [], p_journal := PNone,
        p_doi := PNone\<rparr>]"
    by (simp add: search_and_extract_def search_papers_def search_urls_def platform_links_def
          get_paper_details_def details_cnki_def demo_web_def listing_def item_with_link_def
          usable_href_def slice_to_def title_page_def eval_page)
  have d: "verify_reference ((new_paper (ascii ''u1'') (ascii ''cnki''))\<lparr>
        p_title := Val (ascii ''Graph Theory'')\<rparr>)"
    by (simp add: verify_reference_def new_paper_def ascii_def)
  from a b c d
    returned_titles_nonempty [where isdigit = ascii_digit and url = "ascii ''u1''"
      and w = "web_of title_page"
      and p = "(new_paper (ascii ''u1'') (ascii ''cnki''))\<lparr>p_title := Val (ascii ''Graph Theory''),
        p_authors := Val [], p_journal := PNone, p_doi := PNone\<rparr>"]
    returned_titles_nonempty [where url = "ascii ''u1''" and w = "web_of arxiv_page"
      and p = "(new_paper (ascii ''u1'') (ascii ''arxiv''))\<lparr>p_title := Val (ascii ''Graph Theory''),
        p_authors := Val [], p_journal := Val (ascii ''arXiv preprint''), p_year := PNone,
        p_doi := PNone\<rparr>"]
    returned_titles_nonempty [where w = demo_web and keyword = "ascii ''graph''"
      and platform = "ascii ''cnki''" and max_results = 5
      and p = "(new_paper (ascii ''u1'') (ascii ''cnki''))\<lparr>p_title := Val (ascii ''Graph Theory'')\<rparr>"]
  show ?thesis by simp
qed

text \<open>
  Claim C2 as stated fails: for a cnki page on which no title selector matches,
  \<^verbatim>\<open>get_paper_details\<close> returns a record, with the title \<^verbatim>\<open>None\<close>.
\<close>

theorem titleless_record_counterexample:
  "fst (get_paper_details (ascii ''u1'') (ascii ''cnki'') (web_of blank_page)) =
     Some \<lparr>p_url = Val (ascii ''u1''), p_platform = Val (ascii ''cnki''), p_title = PNone,
       p_authors = Val [], p_journal = PNone, p_year = Omitted, p_doi = PNone,
       p_abstract = Omitted\<rparr>"
  by (simp add: get_paper_details_def details_cnki_def blank_page_def eval_page)

section \<open>Fields that no selector matches\<close>


lemma details_arxiv_fields:
  assumes "details_arxiv soup paper_info = Some p"
  shows "content_or (select_one soup sel_citation_title) PNone = Some (p_title p)"
    and "p_authors p = Val (map get_text (select soup ''.authors a''))"
    and "content_or (select_one soup sel_citation_journal_title) (Val (ascii ''arXiv''))
           = Some (p_journal p)"
    and "select soup sel_citation_date = [] \<Longrightarrow> p_year p = p_year paper_info"
    and "content_or (select_one soup sel_citation_doi) PNone = Some (p_doi p)"
  using assms
  by (auto simp: details_arxiv_def Let_def split: option.splits)



lemma select_one_None_iff: "select_one soup sel = None \<longleftrightarrow> select soup sel = []"
  by (simp add: select_one_def split: list.splits)

lemma first_found_None_iff:
  "first_found soup sels = None \<longleftrightarrow> (\<forall>sel\<in>set sels. select soup sel = [])"
  by (induction sels) (auto simp: select_one_None_iff split: option.splits)





































section \<open>The year\<close>

text \<open>What \<open>search_d4\<close> returns is the leftmost run of four characters of the class.\<close>

lemma search_d4_hit:
  "4 \<le> length (c # cs) \<and> list_all d (take 4 (c # cs)) \<Longrightarrow>
     search_d4 d (c # cs) = Some (take 4 (c # cs))"
  by (simp only: search_d4.simps simp_thms if_True)

lemma search_d4_miss:
  "\<not> (4 \<le> length (c # cs) \<and> list_all d (take 4 (c # cs))) \<Longrightarrow>
     search_d4 d (c # cs) = search_d4 d cs"
  by (simp only: search_d4.simps simp_thms if_False)

lemma search_d4_Some:
  assumes "search_d4 d s = Some m"
  shows "\<exists>pre post. s = pre @ m @ post \<and> length m = 4 \<and> list_all d m \<and>
           (\<forall>k<length pre. \<not> (4 \<le> length (drop k s) \<and> list_all d (take 4 (drop k s))))"
  using assms
proof (induction s)
  case Nil
  then show ?case by simp
next
  case (Cons c cs)
  show ?case
  proof (cases "4 \<le> length (c # cs) \<and> list_all d (take 4 (c # cs))")
    case True
    with Cons.prems have m: "m = take 4 (c # cs)" by (metis search_d4_hit option.inject)
    have "c # cs = [] @ m @ drop 4 (c # cs)" using m by simp
    moreover have "length m = 4" using True m by simp
    moreover have "list_all d m" using True m by simp
    ultimately show ?thesis by (metis length_0_conv not_less_zero)
  next
    case False
    with Cons.prems have "search_d4 d cs = Some m" by (metis search_d4_miss)
    from Cons.IH [OF this] obtain pre post where
      ih: "cs = pre @ m @ post" "length m = 4" "list_all d m"
        "\<forall>k<length pre. \<not> (4 \<le> length (drop k cs) \<and> list_all d (take 4 (drop k cs)))"
      by blast
    have "\<not> (4 \<le> length (drop k (c # cs)) \<and> list_all d (take 4 (drop k (c # cs))))"
      if "k < length (c # pre)" for k
    proof (cases k)
      case 0
      with False show ?thesis by simp
    next
      case (Suc j)
      with that ih(4) show ?thesis by simp
    qed
    moreover have "c # cs = (c # pre) @ m @ post" using ih(1) by simp
    ultimately show ?thesis using ih(2,3) by blast
  qed
qed

lemma search_d4_None:
  assumes "search_d4 d s = None"
  shows "\<not> (4 \<le> length (drop k s) \<and> list_all d (take 4 (drop k s)))"
  using assms
proof (induction s arbitrary: k)
  case Nil
  then show ?case by simp
next
  case (Cons c cs)
  have n: "\<not> (4 \<le> length (c # cs) \<and> list_all d (take 4 (c # cs)))"
    using Cons.prems search_d4_hit [of c cs d] by (metis option.distinct(1))
  then have r: "search_d4 d cs = None"
    using Cons.prems by (metis search_d4_miss)
  show ?case
  proof (cases k)
    case 0
    with n show ?thesis by simp
  next
    case (Suc j)
    with Cons.IH [OF r, of j] show ?thesis by simp
  qed
qed

text \<open>The year \<^verbatim>\<open>get_cnki_paper_details\<close> stores when the page has a date element.\<close>

lemma get_cnki_paper_details_year:
  assumes "fst (get_cnki_paper_details isdigit url w) = Some p"
    and "pages w url = Response st soup" and "select_one soup ''.publish-date'' = Some year_elem"
  shows "p_year p = Val (case search_d4 isdigit (get_text year_elem) of
                          Some m \<Rightarrow> m | None \<Rightarrow> take 4 (get_text year_elem))"
  using assms
  by (auto simp: get_cnki_paper_details_def requests_get_def Let_def
      split: option.splits if_splits)

text \<open>
  Claim C9, at the input where the code departs from it. The date element of the page
  reads \<open>Published: 2021-05-01\<close>. \<^verbatim>\<open>get_cnki_paper_details\<close> finds the run of four digits;
  \<^verbatim>\<open>get_paper_details\<close>, which has no search for digits, stores the first four characters.
\<close>

theorem year_first_four_characters:
  "map_option p_year (fst (get_cnki_paper_details ascii_digit (ascii ''u1'') (web_of dated_page)))
     = Some (Val (ascii ''2021'')) \<and>
   map_option p_year (fst (get_paper_details (ascii ''u1'') (ascii ''cnki'') (web_of dated_page)))
     = Some (Val (ascii ''Publ''))"
  by (simp add: get_cnki_paper_details_def get_paper_details_def details_cnki_def
        dated_page_def ascii_digit_def eval_page)

end
